theory Spec2Isabelle
  imports Complex_Main "HOL-Library.Word"
begin

section \<open>Behaviour analysis: face and eye detection on one still image\<close>

text \<open>
  A shallow embedding of \<^verbatim>\<open>src/server/behavior-analysis.py\<close>. The script decodes a
  base64 image, runs a face cascade on the grayscale frame, runs an eye cascade on the
  crop of the first face, and maps the two detection results to a label that
  \<^verbatim>\<open>main\<close> prints as one JSON line.

  The functions of \<^verbatim>\<open>base64\<close>, \<^verbatim>\<open>numpy\<close> and \<^verbatim>\<open>cv2\<close> are not part of the
  repository. They enter the model as the fields of a record of library functions,
  each returning either the exception it raises or its value. Every call of such a
  function is also written to a log of library calls, so that statements about which
  calls happen, and on which arguments, are statements about the model.
\<close>

subsection \<open>Data\<close>

text \<open>
  A Python exception, by its class name and the text \<^verbatim>\<open>str(e)\<close> gives. The failures
  of the library functions used here (\<^verbatim>\<open>binascii.Error\<close>, \<^verbatim>\<open>cv2.error\<close>,
  \<^verbatim>\<open>ValueError\<close>, \<^verbatim>\<open>TypeError\<close>, \<^verbatim>\<open>AttributeError\<close>) all derive from
  \<^verbatim>\<open>Exception\<close>, the class that \<^verbatim>\<open>main\<close> handles.
\<close>

datatype py_exception = PyException (exc_class: string) (exc_text: string)

definition py_str :: "py_exception \<Rightarrow> string" where
  "py_str e = exc_text e"

type_synonym uint8 = "8 word"
type_synonym int32 = "32 word"

text \<open>\<^verbatim>\<open>bytes\<close>, and the one-dimensional \<^verbatim>\<open>uint8\<close> array \<^verbatim>\<open>np.frombuffer\<close> makes of it.\<close>

type_synonym bytes = "uint8 list"

text \<open>A colour frame: rows of BGR pixels. A grayscale grid: rows of samples.\<close>

type_synonym frame = "(uint8 \<times> uint8 \<times> uint8) list list"
type_synonym grid = "uint8 list list"

text \<open>
  One row of the \<^verbatim>\<open>int32\<close> array \<^verbatim>\<open>detectMultiScale\<close> returns:
  \<^verbatim>\<open>face[0]\<close>, \<^verbatim>\<open>face[1]\<close>, \<^verbatim>\<open>face[2]\<close>, \<^verbatim>\<open>face[3]\<close> are x, y, width, height.
\<close>

record box =
  box_x :: int32
  box_y :: int32
  box_w :: int32
  box_h :: int32

text \<open>
  The keyword arguments of \<^verbatim>\<open>detectMultiScale\<close>. The script only passes them on;
  the float literal \<^verbatim>\<open>1.1\<close> is written as the fraction it denotes in decimal.
\<close>

record detect_params =
  scaleFactor :: rat
  minNeighbors :: int
  minSize :: "int \<times> int"

text \<open>
  The library. \<^verbatim>\<open>imdecode\<close> stands for \<^verbatim>\<open>cv2.imdecode(_, cv2.IMREAD_COLOR)\<close>,
  which returns \<^verbatim>\<open>None\<close> for a buffer that holds no image; \<^verbatim>\<open>cvtColor\<close> stands for
  \<^verbatim>\<open>cv2.cvtColor(_, cv2.COLOR_BGR2GRAY)\<close> on an actual frame, and \<^verbatim>\<open>cvtColor_None\<close>
  is the exception that it raises when it is given \<^verbatim>\<open>None\<close>, whose text depends on
  the version of OpenCV; \<^verbatim>\<open>haarcascades\<close> is the directory
  \<^verbatim>\<open>cv2.data.haarcascades\<close>; \<open>'c\<close> is the type of a loaded cascade.
\<close>

record 'c library =
  b64decode :: "string \<Rightarrow> py_exception + bytes"
  imdecode :: "bytes \<Rightarrow> py_exception + frame option"
  haarcascades :: string
  CascadeClassifier :: "string \<Rightarrow> py_exception + 'c"
  cvtColor :: "frame \<Rightarrow> py_exception + grid"
  cvtColor_None :: py_exception
  detectMultiScale :: "'c \<Rightarrow> grid \<Rightarrow> detect_params \<Rightarrow> py_exception + box list"

text \<open>A call of a library function, with its arguments.\<close>

datatype 'c lib_call =
    B64Decode string
  | ImDecode bytes
  | LoadCascade string
  | CvtColor "frame option"
  | DetectMultiScale 'c grid detect_params

subsection \<open>Sequencing calls that may raise\<close>

text \<open>
  A computation is the log of the library calls it made, and the exception it raised or
  the value it returned. \<open>bind\<close> runs the second computation only when the first one
  returned: an exception ends the computation where it is raised, as it does in a
  Python function without \<^verbatim>\<open>try\<close>.
\<close>

type_synonym ('c, 'a) comp = "'c lib_call list \<times> (py_exception + 'a)"

definition ret :: "'a \<Rightarrow> ('c, 'a) comp" where
  "ret a = ([], Inr a)"

definition call :: "'c lib_call \<Rightarrow> py_exception + 'a \<Rightarrow> ('c, 'a) comp" where
  "call ev r = ([ev], r)"

definition bind :: "('c, 'a) comp \<Rightarrow> ('a \<Rightarrow> ('c, 'b) comp) \<Rightarrow> ('c, 'b) comp" where
  "bind m f =
     (case m of
        (tr, Inl e) \<Rightarrow> (tr, Inl e)
      | (tr, Inr a) \<Rightarrow> (case f a of (tr', r) \<Rightarrow> (tr @ tr', r)))"

subsection \<open>Library behaviour that the script relies on\<close>

text \<open>\<^verbatim>\<open>np.frombuffer(image_bytes, np.uint8)\<close>: the same bytes, as an array.\<close>

definition np_frombuffer :: "bytes \<Rightarrow> bytes" where
  "np_frombuffer image_bytes = image_bytes"

text \<open>
  \<^verbatim>\<open>cv2.cvtColor\<close> applied to \<^verbatim>\<open>None\<close> raises \<^verbatim>\<open>cv2.error\<close>: the script does not
  test the result of \<^verbatim>\<open>cv2.imdecode\<close>, so this is where an undecodable image fails.
\<close>

definition cv2_cvtColor :: "'c library \<Rightarrow> frame option \<Rightarrow> py_exception + grid" where
  "cv2_cvtColor lib frame =
     (case frame of None \<Rightarrow> Inl (cvtColor_None lib) | Some f \<Rightarrow> cvtColor lib f)"

text \<open>
  A slice \<^verbatim>\<open>xs[a:b]\<close> with integer bounds: a negative bound counts from the end, and
  both bounds are clamped to the length.
\<close>

definition slice_bound :: "nat \<Rightarrow> int \<Rightarrow> nat" where
  "slice_bound n i = (if i < 0 then nat (max (i + int n) 0) else min (nat i) n)"

definition py_slice :: "int \<Rightarrow> int \<Rightarrow> 'a list \<Rightarrow> 'a list" where
  "py_slice a b xs =
     (let lo = slice_bound (length xs) a; hi = slice_bound (length xs) b
      in take (hi - lo) (drop lo xs))"

text \<open>The two-dimensional slice \<^verbatim>\<open>g[a:b, c:d]\<close> of an array of rows.\<close>

definition py_slice2 :: "int \<Rightarrow> int \<Rightarrow> int \<Rightarrow> int \<Rightarrow> 'a list list \<Rightarrow> 'a list list" where
  "py_slice2 a b c d g = map (py_slice c d) (py_slice a b g)"

text \<open>
  \<^verbatim>\<open>json.dumps\<close> of a dictionary whose keys and values are strings, with the default
  separators and \<^verbatim>\<open>ensure_ascii\<close>: every character that is not printable ASCII, and
  the quote and the backslash, are escaped. Strings here hold code points below 256.
\<close>

definition hex_digit :: "nat \<Rightarrow> char" where
  "hex_digit n = ''0123456789abcdef'' ! (n mod 16)"

definition json_escape :: "char \<Rightarrow> string" where
  "json_escape c =
     (let n = (of_char c :: nat) in
      if n = 0x22 then [CHR 0x5C, CHR 0x22]
      else if n = 0x5C then [CHR 0x5C, CHR 0x5C]
      else if n = 0x0A then [CHR 0x5C, CHR ''n'']
      else if n = 0x0D then [CHR 0x5C, CHR ''r'']
      else if n = 0x09 then [CHR 0x5C, CHR ''t'']
      else if n = 0x08 then [CHR 0x5C, CHR ''b'']
      else if n = 0x0C then [CHR 0x5C, CHR ''f'']
      else if n < 0x20 \<or> 0x7E < n
        then [CHR 0x5C, CHR ''u'', CHR ''0'', CHR ''0'', hex_digit (n div 16), hex_digit n]
      else [c])"

definition json_string :: "string \<Rightarrow> string" where
  "json_string s = [CHR 0x22] @ concat (map json_escape s) @ [CHR 0x22]"

fun json_items :: "(string \<times> string) list \<Rightarrow> string" where
  "json_items [] = []"
| "json_items [(k, v)] = json_string k @ '': '' @ json_string v"
| "json_items ((k, v) # kvs) = json_string k @ '': '' @ json_string v @ '', '' @ json_items kvs"

definition json_dumps :: "(string \<times> string) list \<Rightarrow> string" where
  "json_dumps d = ''{'' @ json_items d @ ''}''"

subsection \<open>The script\<close>

text \<open>
  \<^verbatim>\<open>detect_face\<close>: the grayscale conversion and the face cascade, with
  \<^verbatim>\<open>scaleFactor=1.1, minNeighbors=5, minSize=(30, 30)\<close>.
\<close>

definition detect_face :: "'c library \<Rightarrow> 'c \<Rightarrow> frame option \<Rightarrow> ('c, box list \<times> grid) comp" where
  "detect_face lib face_cascade frame =
     bind (call (CvtColor frame) (cv2_cvtColor lib frame)) (\<lambda>gray.
     bind (call (DetectMultiScale face_cascade gray
                   \<lparr>scaleFactor = 11 / 10, minNeighbors = 5, minSize = (30, 30)\<rparr>)
                (detectMultiScale lib face_cascade gray
                   \<lparr>scaleFactor = 11 / 10, minNeighbors = 5, minSize = (30, 30)\<rparr>)) (\<lambda>faces.
     ret (faces, gray)))"

text \<open>
  \<^verbatim>\<open>detect_eyes\<close>: the region
  \<^verbatim>\<open>gray[face[1]:face[1]+face[3], face[0]:face[0]+face[2]]\<close> and the eye cascade, with
  \<^verbatim>\<open>scaleFactor=1.1, minNeighbors=5, minSize=(20, 20)\<close>. The sums are sums of
  \<^verbatim>\<open>int32\<close> values.
\<close>

definition detect_eyes :: "'c library \<Rightarrow> 'c \<Rightarrow> grid \<Rightarrow> box \<Rightarrow> ('c, box list) comp" where
  "detect_eyes lib eye_cascade gray face =
     (let roi_gray = py_slice2 (sint (box_y face)) (sint (box_y face + box_h face))
                            (sint (box_x face)) (sint (box_x face + box_w face)) gray
      in bind (call (DetectMultiScale eye_cascade roi_gray
                       \<lparr>scaleFactor = 11 / 10, minNeighbors = 5, minSize = (20, 20)\<rparr>)
                    (detectMultiScale lib eye_cascade roi_gray
                       \<lparr>scaleFactor = 11 / 10, minNeighbors = 5, minSize = (20, 20)\<rparr>)) (\<lambda>eyes.
         ret eyes))"

text \<open>\<^verbatim>\<open>analyze_behavior\<close>: the label, or the exception of the first call that raises.\<close>

definition analyze_behavior :: "'c library \<Rightarrow> string \<Rightarrow> ('c, string) comp" where
  "analyze_behavior lib image_data =
     bind (call (B64Decode image_data) (b64decode lib image_data)) (\<lambda>image_bytes.
     bind (ret (np_frombuffer image_bytes)) (\<lambda>np_array.
     bind (call (ImDecode np_array) (imdecode lib np_array)) (\<lambda>frame.
     bind (call (LoadCascade (haarcascades lib @ ''haarcascade_frontalface_default.xml''))
                (CascadeClassifier lib
                   (haarcascades lib @ ''haarcascade_frontalface_default.xml''))) (\<lambda>face_cascade.
     bind (call (LoadCascade (haarcascades lib @ ''haarcascade_eye.xml''))
                (CascadeClassifier lib (haarcascades lib @ ''haarcascade_eye.xml''))) (\<lambda>eye_cascade.
     bind (detect_face lib face_cascade frame) (\<lambda>(faces, gray).
     if length faces = 0 then ret ''idle''
     else
       let face = faces ! 0 in
       bind (detect_eyes lib eye_cascade gray face) (\<lambda>eyes.
       if length eyes < 2 then ret ''sleeping''
       else ret ''working'')))))))"

text \<open>
  \<^verbatim>\<open>main\<close>, on the argument vector \<^verbatim>\<open>sys.argv\<close>: the lines it prints, the library
  calls it made, and how it ends (\<open>Inr ()\<close> is a normal return, \<open>Inl e\<close> an
  exception that leaves \<^verbatim>\<open>main\<close>).
\<close>

record 'c run =
  printed :: "string list"
  calls :: "'c lib_call list"
  outcome :: "py_exception + unit"

definition main :: "'c library \<Rightarrow> string list \<Rightarrow> 'c run" where
  "main lib argv =
     (let image_data = (if length argv > 1 then argv ! 1 else '''') in
      if image_data = '''' then
        \<lparr>printed = [json_dumps [(''status'', ''error''), (''message'', ''No image data provided'')]],
         calls = [], outcome = Inr ()\<rparr>
      else
        (case analyze_behavior lib image_data of
           (tr, Inr behavior) \<Rightarrow>
             \<lparr>printed = [json_dumps [(''status'', behavior)]], calls = tr, outcome = Inr ()\<rparr>
         | (tr, Inl e) \<Rightarrow>
             \<lparr>printed = [json_dumps [(''status'', ''error''), (''message'', py_str e)]],
              calls = tr, outcome = Inr ()\<rparr>))"

subsection \<open>The vocabulary of the specification\<close>

text \<open>The two fixed detector configurations, and the two cascade files.\<close>

abbreviation face_params :: detect_params where
  "face_params \<equiv> \<lparr>scaleFactor = 11 / 10, minNeighbors = 5, minSize = (30, 30)\<rparr>"

abbreviation eye_params :: detect_params where
  "eye_params \<equiv> \<lparr>scaleFactor = 11 / 10, minNeighbors = 5, minSize = (20, 20)\<rparr>"

abbreviation face_file :: "'c library \<Rightarrow> string" where
  "face_file lib \<equiv> haarcascades lib @ ''haarcascade_frontalface_default.xml''"

abbreviation eye_file :: "'c library \<Rightarrow> string" where
  "eye_file lib \<equiv> haarcascades lib @ ''haarcascade_eye.xml''"

text \<open>
  A box lies within a grid: its origin and its size are not negative, its rows are rows
  of the grid and its columns are columns of every row. The dimensions of an array that
  the detector has scanned are themselves \<^verbatim>\<open>int32\<close> values.
\<close>

definition in_grid :: "'a list list \<Rightarrow> box \<Rightarrow> bool" where
  "in_grid g b \<longleftrightarrow>
     0 \<le> sint (box_x b) \<and> 0 \<le> sint (box_y b) \<and> 0 \<le> sint (box_w b) \<and> 0 \<le> sint (box_h b) \<and>
     sint (box_y b) + sint (box_h b) \<le> int (length g) \<and> length g < 2 ^ 31 \<and>
     (\<forall>row \<in> set g. sint (box_x b) + sint (box_w b) \<le> int (length row) \<and> length row < 2 ^ 31)"

text \<open>
  The rectangle of a box, read off the grid sample by sample: row \<open>i\<close>, column \<open>j\<close> of
  the result is row \<open>y + i\<close>, column \<open>x + j\<close> of the grid, for \<open>i\<close> below the height and
  \<open>j\<close> below the width.
\<close>

definition sub_grid :: "'a list list \<Rightarrow> box \<Rightarrow> 'a list list" where
  "sub_grid g b =
     map (\<lambda>r. map (\<lambda>c. g ! r ! c)
                 [nat (sint (box_x b)) ..< nat (sint (box_x b)) + nat (sint (box_w b))])
         [nat (sint (box_y b)) ..< nat (sint (box_y b)) + nat (sint (box_h b))]"

subsection \<open>A library to run the script on\<close>

text \<open>
  A small stand-in for the library, for evaluating the script on concrete arguments.
  \<^verbatim>\<open>QUJD\<close> decodes to the bytes of an image of four rows and four columns,
  \<^verbatim>\<open>QUJE\<close> to bytes that are no image, the empty text to no bytes, which the image
  decoder rejects, and every other text is rejected by the base64 decoder. A loaded
  cascade is the name of its file, and the two cascades answer with the results given.
\<close>

definition test_frame :: frame where
  "test_frame =
     [ [(0, 0, 0), (1, 0, 0), (2, 0, 0), (3, 0, 0)],
      [(10, 0, 0), (11, 0, 0), (12, 0, 0), (13, 0, 0)],
      [(20, 0, 0), (21, 0, 0), (22, 0, 0), (23, 0, 0)],
      [(30, 0, 0), (31, 0, 0), (32, 0, 0), (33, 0, 0)]]"

definition test_library ::
  "(py_exception + box list) \<Rightarrow> (py_exception + box list) \<Rightarrow> string library" where
  "test_library faces eyes =
     \<lparr>b64decode = (\<lambda>s.
        if s = '''' then Inr []
        else if s = ''QUJD'' then Inr [0x41, 0x42, 0x43]
        else if s = ''QUJE'' then Inr [0x41, 0x42, 0x44]
        else Inl (PyException ''binascii.Error'' ''Incorrect padding'')),
      imdecode = (\<lambda>buf.
        if buf = [] then Inl (PyException ''cv2.error''
          ''(-215:Assertion failed) !buf.empty() in function imdecode_'')
        else if buf = [0x41, 0x42, 0x43] then Inr (Some test_frame)
        else Inr None),
      haarcascades = ''/cv2/data/'',
      CascadeClassifier = (\<lambda>path. Inr path),
      cvtColor = (\<lambda>f. Inr (map (map fst) f)),
      cvtColor_None = PyException ''cv2.error''
        (''OpenCV(4.10.0) /io/opencv/modules/imgproc/src/color.cpp:196: error: '' @
         ''(-215:Assertion failed) !_src.empty() in function '' @
         [CHR 0x27] @ ''cvtColor'' @ [CHR 0x27, CHR 0x0A]),
      detectMultiScale = (\<lambda>c g ps.
        if c = ''/cv2/data/haarcascade_frontalface_default.xml'' then faces else eyes)\<rparr>"

text \<open>
  The same library with other objects for the loaded cascades: numbers, 1 for the
  cascade of the face file and 2 for any other.
\<close>

definition test_library_nat ::
  "(py_exception + box list) \<Rightarrow> (py_exception + box list) \<Rightarrow> nat library" where
  "test_library_nat faces eyes =
     \<lparr>b64decode = b64decode (test_library faces eyes),
      imdecode = imdecode (test_library faces eyes),
      haarcascades = haarcascades (test_library faces eyes),
      CascadeClassifier = (\<lambda>path.
        Inr (if path = ''/cv2/data/haarcascade_frontalface_default.xml'' then 1 else 2)),
      cvtColor = cvtColor (test_library faces eyes),
      cvtColor_None = cvtColor_None (test_library faces eyes),
      detectMultiScale = (\<lambda>c g ps. if c = 1 then faces else eyes)\<rparr>"

text \<open>A string cascade and a number cascade that stand for the same file.\<close>

definition same_file :: "string \<Rightarrow> nat \<Rightarrow> bool" where
  "same_file c n \<longleftrightarrow>
     n = (if c = ''/cv2/data/haarcascade_frontalface_default.xml'' then 1 else 2)"





definition test_face :: box where
  "test_face = \<lparr>box_x = 1, box_y = 1, box_w = 2, box_h = 2\<rparr>"

definition test_eye :: box where
  "test_eye = \<lparr>box_x = 0, box_y = 0, box_w = 1, box_h = 1\<rparr>"

section \<open>Properties\<close>

subsection \<open>Unfolding the sequencing\<close>

lemma bind_call:
  "bind (call ev r) f =
     (case r of Inl e \<Rightarrow> ([ev], Inl e) | Inr a \<Rightarrow> (ev # fst (f a), snd (f a)))"
  by (simp add: bind_def call_def split: sum.splits prod.splits)

lemma bind_ret: "bind (ret a) f = f a"
  by (simp add: bind_def ret_def split: prod.splits)

lemma bind_pair:
  "bind (tr, r) f =
     (case r of Inl e \<Rightarrow> (tr, Inl e) | Inr a \<Rightarrow> (tr @ fst (f a), snd (f a)))"
  by (simp add: bind_def split: sum.splits prod.splits)

lemma detect_face_cases:
  "detect_face lib face_cascade frame =
     (case cv2_cvtColor lib frame of
        Inl e \<Rightarrow> ([CvtColor frame], Inl e)
      | Inr gray \<Rightarrow>
          (case detectMultiScale lib face_cascade gray face_params of
             Inl e \<Rightarrow> ([CvtColor frame, DetectMultiScale face_cascade gray face_params], Inl e)
           | Inr faces \<Rightarrow>
               ([CvtColor frame, DetectMultiScale face_cascade gray face_params],
                Inr (faces, gray))))"
  by (simp add: detect_face_def bind_call ret_def split: sum.splits)

lemma detect_eyes_cases:
  "detect_eyes lib eye_cascade gray face =
     ([DetectMultiScale eye_cascade
         (py_slice2 (sint (box_y face)) (sint (box_y face + box_h face))
                    (sint (box_x face)) (sint (box_x face + box_w face)) gray) eye_params],
      detectMultiScale lib eye_cascade
         (py_slice2 (sint (box_y face)) (sint (box_y face + box_h face))
                    (sint (box_x face)) (sint (box_x face + box_w face)) gray) eye_params)"
  by (simp add: detect_eyes_def Let_def bind_call ret_def split: sum.splits)

lemmas run_simps = analyze_behavior_def bind_call bind_ret bind_pair ret_def Let_def

text \<open>The first thing the pipeline does with a payload is to hand it to the decoder.\<close>

lemma analyze_behavior_log_starts:
  "\<exists>tr. fst (analyze_behavior lib image_data) = B64Decode image_data # tr"
  by (simp add: run_simps split: sum.splits)

lemma analyze_behavior_log_payload:
  "B64Decode d \<in> set (fst (analyze_behavior lib image_data)) \<Longrightarrow> d = image_data"
  by (auto simp add: run_simps detect_face_cases detect_eyes_cases split: sum.splits if_splits)

subsection \<open>The decision rule\<close>

text \<open>
  C1. When the decoding and the loading of the cascades succeed and the face detector
  returns no box, the pipeline returns the label idle.
\<close>

theorem no_face_is_idle:
  assumes "b64decode lib image_data = Inr image_bytes"
    and "imdecode lib (np_frombuffer image_bytes) = Inr frame"
    and "CascadeClassifier lib (face_file lib) = Inr face_cascade"
    and "CascadeClassifier lib (eye_file lib) = Inr eye_cascade"
    and "snd (detect_face lib face_cascade frame) = Inr (faces, gray)"
    and "length faces = 0"
  shows "snd (analyze_behavior lib image_data) = Inr ''idle''"
proof -
  obtain tr where "detect_face lib face_cascade frame = (tr, Inr (faces, gray))"
    using assms(5) by (cases "detect_face lib face_cascade frame") simp
  with assms show ?thesis
    by (simp add: run_simps)
qed

theorem no_face_is_idle_witness:
  "b64decode (test_library (Inr []) (Inr [test_eye])) ''QUJD'' = Inr [0x41, 0x42, 0x43] \<and>
   imdecode (test_library (Inr []) (Inr [test_eye])) (np_frombuffer [0x41, 0x42, 0x43])
     = Inr (Some test_frame) \<and>
   snd (detect_face (test_library (Inr []) (Inr [test_eye]))
          ''/cv2/data/haarcascade_frontalface_default.xml'' (Some test_frame))
     = Inr ([], map (map fst) test_frame) \<and>
   snd (analyze_behavior (test_library (Inr []) (Inr [test_eye])) ''QUJD'') = Inr ''idle''"
proof -
  let ?lib = "test_library (Inr []) (Inr [test_eye])"
  have h1: "b64decode ?lib ''QUJD'' = Inr [0x41, 0x42, 0x43]"
    by (simp add: test_library_def)
  have h2: "imdecode ?lib (np_frombuffer [0x41, 0x42, 0x43]) = Inr (Some test_frame)"
    by (simp add: test_library_def np_frombuffer_def)
  have h3: "CascadeClassifier ?lib (face_file ?lib)
              = Inr ''/cv2/data/haarcascade_frontalface_default.xml''"
    by (simp add: test_library_def)
  have h4: "CascadeClassifier ?lib (eye_file ?lib) = Inr ''/cv2/data/haarcascade_eye.xml''"
    by (simp add: test_library_def)
  have h5: "snd (detect_face ?lib ''/cv2/data/haarcascade_frontalface_default.xml''
                   (Some test_frame)) = Inr ([], map (map fst) test_frame)"
    by (simp add: detect_face_cases cv2_cvtColor_def test_library_def)
  have h6: "length ([] :: box list) = 0"
    by simp
  from no_face_is_idle [OF h1 h2 h3 h4 h5 h6] h1 h2 h5 show ?thesis
    by simp
qed

text \<open>
  C2. When the face detector returns at least one box and the eye detector, run on the
  crop of the first face box, returns fewer than two boxes, the pipeline returns the
  label sleeping.
\<close>

theorem few_eyes_is_sleeping:
  assumes "b64decode lib image_data = Inr image_bytes"
    and "imdecode lib (np_frombuffer image_bytes) = Inr frame"
    and "CascadeClassifier lib (face_file lib) = Inr face_cascade"
    and "CascadeClassifier lib (eye_file lib) = Inr eye_cascade"
    and "snd (detect_face lib face_cascade frame) = Inr (faces, gray)"
    and "length faces \<ge> 1"
    and "snd (detect_eyes lib eye_cascade gray (faces ! 0)) = Inr eyes"
    and "length eyes < 2"
  shows "snd (analyze_behavior lib image_data) = Inr ''sleeping''"
proof -
  obtain tr where "detect_face lib face_cascade frame = (tr, Inr (faces, gray))"
    using assms(5) by (cases "detect_face lib face_cascade frame") simp
  moreover obtain tr' where "detect_eyes lib eye_cascade gray (faces ! 0) = (tr', Inr eyes)"
    using assms(7) by (cases "detect_eyes lib eye_cascade gray (faces ! 0)") simp
  moreover have "faces \<noteq> []"
    using assms(6) by auto
  ultimately show ?thesis
    using assms by (simp add: run_simps)
qed

text \<open>
  C3. When the face detector returns at least one box and the eye detector, run on the
  crop of the first face box, returns two boxes or more, the pipeline returns the label
  working.
\<close>

theorem two_eyes_is_working:
  assumes "b64decode lib image_data = Inr image_bytes"
    and "imdecode lib (np_frombuffer image_bytes) = Inr frame"
    and "CascadeClassifier lib (face_file lib) = Inr face_cascade"
    and "CascadeClassifier lib (eye_file lib) = Inr eye_cascade"
    and "snd (detect_face lib face_cascade frame) = Inr (faces, gray)"
    and "length faces \<ge> 1"
    and "snd (detect_eyes lib eye_cascade gray (faces ! 0)) = Inr eyes"
    and "length eyes \<ge> 2"
  shows "snd (analyze_behavior lib image_data) = Inr ''working''"
proof -
  obtain tr where "detect_face lib face_cascade frame = (tr, Inr (faces, gray))"
    using assms(5) by (cases "detect_face lib face_cascade frame") simp
  moreover obtain tr' where "detect_eyes lib eye_cascade gray (faces ! 0) = (tr', Inr eyes)"
    using assms(7) by (cases "detect_eyes lib eye_cascade gray (faces ! 0)") simp
  moreover have "faces \<noteq> []"
    using assms(6) by auto
  ultimately show ?thesis
    using assms by (simp add: run_simps)
qed

text \<open>
  C4. A label that the pipeline returns is working, idle or sleeping; it is never moving.
\<close>

theorem label_is_never_moving:
  "snd (analyze_behavior lib image_data) = Inr label \<Longrightarrow>
     label \<in> {''working'', ''idle'', ''sleeping''} \<and> label \<noteq> ''moving''"
  by (auto simp add: run_simps detect_face_cases detect_eyes_cases split: sum.splits if_splits)

subsection \<open>The decision rule on the test library\<close>

lemma test_library_stages:
  "b64decode (test_library fs es) ''QUJD'' = Inr [0x41, 0x42, 0x43]"
  "imdecode (test_library fs es) (np_frombuffer [0x41, 0x42, 0x43]) = Inr (Some test_frame)"
  "CascadeClassifier (test_library fs es) (face_file (test_library fs es))
     = Inr ''/cv2/data/haarcascade_frontalface_default.xml''"
  "CascadeClassifier (test_library fs es) (eye_file (test_library fs es))
     = Inr ''/cv2/data/haarcascade_eye.xml''"
  by (simp_all add: test_library_def np_frombuffer_def)

lemma test_library_detect_face:
  "snd (detect_face (test_library (Inr faces) es)
          ''/cv2/data/haarcascade_frontalface_default.xml'' (Some test_frame))
     = Inr (faces, map (map fst) test_frame)"
  by (simp add: detect_face_cases cv2_cvtColor_def test_library_def)

lemma test_library_detect_eyes:
  "snd (detect_eyes (test_library fs es) ''/cv2/data/haarcascade_eye.xml'' gray face) = es"
  by (simp add: detect_eyes_cases test_library_def)

theorem few_eyes_is_sleeping_witness:
  "snd (detect_face (test_library (Inr [test_face]) (Inr [test_eye]))
          ''/cv2/data/haarcascade_frontalface_default.xml'' (Some test_frame))
     = Inr ([test_face], map (map fst) test_frame) \<and>
   length [test_face] \<ge> 1 \<and>
   snd (detect_eyes (test_library (Inr [test_face]) (Inr [test_eye]))
          ''/cv2/data/haarcascade_eye.xml'' (map (map fst) test_frame) ([test_face] ! 0))
     = Inr [test_eye] \<and>
   length [test_eye] < 2 \<and>
   snd (analyze_behavior (test_library (Inr [test_face]) (Inr [test_eye])) ''QUJD'')
     = Inr ''sleeping''"
proof -
  have h6: "length [test_face] \<ge> 1" and h8: "length [test_eye] < 2"
    by simp_all
  from few_eyes_is_sleeping [OF test_library_stages test_library_detect_face h6
      test_library_detect_eyes h8]
    test_library_detect_face [of "[test_face]" "Inr [test_eye]"]
    test_library_detect_eyes [of "Inr [test_face]" "Inr [test_eye]"]
  show ?thesis
    by simp
qed

theorem two_eyes_is_working_witness:
  "snd (detect_face (test_library (Inr [test_face]) (Inr [test_eye, test_eye]))
          ''/cv2/data/haarcascade_frontalface_default.xml'' (Some test_frame))
     = Inr ([test_face], map (map fst) test_frame) \<and>
   length [test_face] \<ge> 1 \<and>
   snd (detect_eyes (test_library (Inr [test_face]) (Inr [test_eye, test_eye]))
          ''/cv2/data/haarcascade_eye.xml'' (map (map fst) test_frame) ([test_face] ! 0))
     = Inr [test_eye, test_eye] \<and>
   length [test_eye, test_eye] \<ge> 2 \<and>
   snd (analyze_behavior (test_library (Inr [test_face]) (Inr [test_eye, test_eye])) ''QUJD'')
     = Inr ''working''"
proof -
  have h6: "length [test_face] \<ge> 1" and h8: "length [test_eye, test_eye] \<ge> 2"
    by simp_all
  from two_eyes_is_working [OF test_library_stages test_library_detect_face h6
      test_library_detect_eyes h8]
    test_library_detect_face [of "[test_face]" "Inr [test_eye, test_eye]"]
    test_library_detect_eyes [of "Inr [test_face]" "Inr [test_eye, test_eye]"]
  show ?thesis
    by simp
qed

theorem label_is_never_moving_witness:
  "snd (analyze_behavior (test_library (Inr [test_face]) (Inr [test_eye, test_eye])) ''QUJD'')
     = Inr ''working'' \<and>
   ''working'' \<in> {''working'', ''idle'', ''sleeping''} \<and> ''working'' \<noteq> ''moving''"
proof -
  have run: "snd (analyze_behavior (test_library (Inr [test_face]) (Inr [test_eye, test_eye]))
                    ''QUJD'') = Inr ''working''"
    by (simp add: run_simps detect_face_cases detect_eyes_cases test_library_def
        np_frombuffer_def cv2_cvtColor_def)
  from label_is_never_moving [OF run] run show ?thesis
    by simp
qed

subsection \<open>The request handler\<close>

lemma main_without_payload:
  "\<not> (length argv > 1 \<and> argv ! 1 \<noteq> '''') \<Longrightarrow>
     main lib argv =
       \<lparr>printed = [json_dumps [(''status'', ''error''), (''message'', ''No image data provided'')]],
        calls = [], outcome = Inr ()\<rparr>"
  by (auto simp add: main_def)

lemma main_with_payload:
  "length argv > 1 \<Longrightarrow> argv ! 1 \<noteq> '''' \<Longrightarrow>
     main lib argv =
       (case analyze_behavior lib (argv ! 1) of
          (tr, Inr behavior) \<Rightarrow>
            \<lparr>printed = [json_dumps [(''status'', behavior)]], calls = tr, outcome = Inr ()\<rparr>
        | (tr, Inl e) \<Rightarrow>
            \<lparr>printed = [json_dumps [(''status'', ''error''), (''message'', py_str e)]],
             calls = tr, outcome = Inr ()\<rparr>)"
  by (simp add: main_def)

lemma main_prints_one_line: "length (printed (main lib argv)) = 1"
  by (cases "length argv > 1 \<and> argv ! 1 \<noteq> ''''")
     (auto simp add: main_without_payload main_with_payload split: prod.splits sum.splits)

lemma main_returns: "outcome (main lib argv) = Inr ()"
  by (cases "length argv > 1 \<and> argv ! 1 \<noteq> ''''")
     (auto simp add: main_without_payload main_with_payload split: prod.splits sum.splits)

lemma no_image_line:
  \<open>json_dumps [(''status'', ''error''), (''message'', ''No image data provided'')]
     = ''{"status": "error", "message": "No image data provided"}''\<close>
  by (simp add: json_dumps_def json_string_def json_escape_def)

text \<open>
  C5. An exception that leaves the pipeline, whichever call raised it, is handled in
  \<^verbatim>\<open>main\<close>: the line printed is the error object with the text of the exception as
  its message. On every argument vector \<^verbatim>\<open>main\<close> prints exactly one line and returns.
\<close>

theorem main_reports_every_failure:
  "(image_data \<noteq> '''' \<and> analyze_behavior lib image_data = (tr, Inl e) \<longrightarrow>
      main lib (prog # image_data # rest) =
        \<lparr>printed = [json_dumps [(''status'', ''error''), (''message'', py_str e)]],
         calls = tr, outcome = Inr ()\<rparr>) \<and>
   length (printed (main lib argv)) = 1 \<and>
   outcome (main lib argv) = Inr ()"
  by (simp add: main_with_payload main_prints_one_line main_returns)

theorem main_reports_every_failure_witness:
  \<open>''QUJ'' \<noteq> '''' \<and>
   analyze_behavior (test_library (Inr []) (Inr [])) ''QUJ''
     = ([B64Decode ''QUJ''], Inl (PyException ''binascii.Error'' ''Incorrect padding'')) \<and>
   main (test_library (Inr []) (Inr [])) [''behavior-analysis.py'', ''QUJ''] =
     \<lparr>printed = [''{"status": "error", "message": "Incorrect padding"}''],
      calls = [B64Decode ''QUJ''], outcome = Inr ()\<rparr> \<and>
   snd (analyze_behavior
          (test_library (Inr [test_face]) (Inl (PyException ''cv2.error'' ''Unknown C++ exception'')))
          ''QUJD'')
     = Inl (PyException ''cv2.error'' ''Unknown C++ exception'') \<and>
   printed (main
              (test_library (Inr [test_face]) (Inl (PyException ''cv2.error'' ''Unknown C++ exception'')))
              [''behavior-analysis.py'', ''QUJD''])
     = [''{"status": "error", "message": "Unknown C++ exception"}''] \<and>
   length (printed (main (test_library (Inr []) (Inr [])) [''behavior-analysis.py''])) = 1 \<and>
   outcome (main (test_library (Inr []) (Inr [])) [''behavior-analysis.py'']) = Inr ()\<close>
proof -
  let ?padding = "PyException ''binascii.Error'' ''Incorrect padding''"
  let ?unknown = "PyException ''cv2.error'' ''Unknown C++ exception''"
  let ?lib = "test_library (Inr [test_face]) (Inl ?unknown)"
  have run: "analyze_behavior (test_library (Inr []) (Inr [])) ''QUJ''
               = ([B64Decode ''QUJ''], Inl ?padding)"
    by (simp add: run_simps test_library_def)
  have line: \<open>json_dumps [(''status'', ''error''), (''message'', py_str ?padding)]
               = ''{"status": "error", "message": "Incorrect padding"}''\<close>
    by (simp add: json_dumps_def json_string_def json_escape_def py_str_def)
  have late: "snd (analyze_behavior ?lib ''QUJD'') = Inl ?unknown"
    by (simp add: run_simps detect_face_cases detect_eyes_cases test_library_def
        np_frombuffer_def cv2_cvtColor_def)
  then obtain tr where run': "analyze_behavior ?lib ''QUJD'' = (tr, Inl ?unknown)"
    by (cases "analyze_behavior ?lib ''QUJD''") simp
  have line': \<open>json_dumps [(''status'', ''error''), (''message'', py_str ?unknown)]
               = ''{"status": "error", "message": "Unknown C++ exception"}''\<close>
    by (simp add: json_dumps_def json_string_def json_escape_def py_str_def)
  from main_reports_every_failure
         [of "''QUJD''" ?lib tr ?unknown "''behavior-analysis.py''" "[]"] run' line'
  have out: \<open>printed (main ?lib [''behavior-analysis.py'', ''QUJD''])
               = [''{"status": "error", "message": "Unknown C++ exception"}'']\<close>
    by simp
  from main_reports_every_failure
         [of "''QUJ''" "test_library (Inr []) (Inr [])" "[B64Decode ''QUJ'']" ?padding
             "''behavior-analysis.py''" "[]" "[''behavior-analysis.py'']"]
       run line late out
  show ?thesis
    by simp
qed

text \<open>
  C6. Without an image argument \<^verbatim>\<open>main\<close> prints the line
  \<^verbatim>\<open>{"status": "error", "message": "No image data provided"}\<close> and returns, and it
  calls no library function: the pipeline is not run.
\<close>

theorem main_without_argument:
  \<open>length argv \<le> 1 \<Longrightarrow>
     main lib argv =
       \<lparr>printed = [''{"status": "error", "message": "No image data provided"}''],
        calls = [], outcome = Inr ()\<rparr>\<close>
  by (simp add: main_without_payload no_image_line)

theorem main_without_argument_witness:
  \<open>length [''behavior-analysis.py''] \<le> 1 \<and>
   main (test_library (Inr [test_face]) (Inr [])) [''behavior-analysis.py''] =
     \<lparr>printed = [''{"status": "error", "message": "No image data provided"}''],
      calls = [], outcome = Inr ()\<rparr>\<close>
proof -
  have h: "length [''behavior-analysis.py''] \<le> 1"
    by simp
  from main_without_argument [OF h, of "test_library (Inr [test_face]) (Inr [])"] h
  show ?thesis
    by simp
qed

text \<open>
  C10. An empty image argument is treated as a missing one: \<^verbatim>\<open>main\<close> prints the same
  line, and calls no library function. On no argument vector does \<^verbatim>\<open>main\<close> hand an
  empty payload to the decoder, which is the first call of the pipeline.
\<close>

theorem main_with_empty_argument:
  \<open>main lib (prog # '''' # rest) = main lib [prog] \<and>
   printed (main lib (prog # '''' # rest))
     = [''{"status": "error", "message": "No image data provided"}''] \<and>
   calls (main lib (prog # '''' # rest)) = [] \<and>
   B64Decode '''' \<notin> set (calls (main lib argv))\<close>
proof -
  have "B64Decode '''' \<notin> set (calls (main lib argv))"
  proof (cases "length argv > 1 \<and> argv ! 1 \<noteq> ''''")
    case True
    then show ?thesis
      using analyze_behavior_log_payload [of "''''" lib "argv ! 1"]
      by (auto simp add: main_with_payload split: prod.splits sum.splits)
  next
    case False
    then show ?thesis
      by (simp add: main_without_payload)
  qed
  then show ?thesis
    by (simp add: main_without_payload no_image_line)
qed

theorem main_with_empty_argument_witness:
  \<open>main (test_library (Inr [test_face]) (Inr [])) [''behavior-analysis.py'', '''']
     = main (test_library (Inr [test_face]) (Inr [])) [''behavior-analysis.py''] \<and>
   printed (main (test_library (Inr [test_face]) (Inr [])) [''behavior-analysis.py'', ''''])
     = [''{"status": "error", "message": "No image data provided"}''] \<and>
   calls (main (test_library (Inr [test_face]) (Inr [])) [''behavior-analysis.py'', '''']) = [] \<and>
   B64Decode '''' \<notin> set (calls (main (test_library (Inr [test_face]) (Inr []))
                                   [''behavior-analysis.py'', ''QUJD'']))\<close>
  by (rule main_with_empty_argument)

subsection \<open>The region the eye detector sees\<close>

lemma sint_add_int32:
  fixes a b :: int32
  assumes "0 \<le> sint a" and "0 \<le> sint b" and "sint a + sint b < 2 ^ 31"
  shows "sint (a + b) = sint a + sint b"
  using assms by (simp add: sint_word_ariths signed_take_bit_int_eq_self)

lemma take_drop_map_nth:
  assumes "n \<le> length xs"
  shows "take (n - m) (drop m xs) = map (nth xs) [m..<n]"
  using assms by (intro nth_equalityI) auto

lemma py_slice_in_range:
  assumes "0 \<le> a" and "a \<le> b" and "b \<le> int (length xs)"
  shows "py_slice a b xs = map (nth xs) [nat a..<nat b]"
proof -
  have lo: "slice_bound (length xs) a = nat a"
    using assms by (simp add: slice_bound_def)
  have hi: "slice_bound (length xs) b = nat b"
    using assms by (simp add: slice_bound_def)
  have "nat b \<le> length xs"
    using assms by simp
  then show ?thesis
    by (simp add: py_slice_def lo hi take_drop_map_nth)
qed

text \<open>For a box within the grid, the slice of \<^verbatim>\<open>detect_eyes\<close> is the rectangle of the box.\<close>

lemma roi_is_sub_grid:
  assumes "in_grid g b"
  shows "py_slice2 (sint (box_y b)) (sint (box_y b + box_h b))
                   (sint (box_x b)) (sint (box_x b + box_w b)) g = sub_grid g b"
proof -
  from assms have y: "0 \<le> sint (box_y b)" and h: "0 \<le> sint (box_h b)"
    and x: "0 \<le> sint (box_x b)" and w: "0 \<le> sint (box_w b)"
    and rows: "sint (box_y b) + sint (box_h b) \<le> int (length g)" and len: "length g < 2 ^ 31"
    and cols: "\<And>row. row \<in> set g \<Longrightarrow>
                 sint (box_x b) + sint (box_w b) \<le> int (length row) \<and> length row < 2 ^ 31"
    by (simp_all add: in_grid_def)
  have yh: "sint (box_y b + box_h b) = sint (box_y b) + sint (box_h b)"
    using y h rows len by (intro sint_add_int32) auto
  have outer: "py_slice (sint (box_y b)) (sint (box_y b + box_h b)) g
                 = map (nth g) [nat (sint (box_y b)) ..< nat (sint (box_y b)) + nat (sint (box_h b))]"
    using y h rows by (simp add: yh py_slice_in_range nat_add_distrib)
  have inner: "py_slice (sint (box_x b)) (sint (box_x b + box_w b)) (g ! r)
                 = map (nth (g ! r)) [nat (sint (box_x b)) ..< nat (sint (box_x b)) + nat (sint (box_w b))]"
    if "r < length g" for r
  proof -
    from that have "g ! r \<in> set g"
      by simp
    from cols [OF this]
    have c: "sint (box_x b) + sint (box_w b) \<le> int (length (g ! r))"
      and l: "length (g ! r) < 2 ^ 31"
      by simp_all
    have "sint (box_x b + box_w b) = sint (box_x b) + sint (box_w b)"
      using x w c l by (intro sint_add_int32) auto
    then show ?thesis
      using x w c by (simp add: py_slice_in_range nat_add_distrib)
  qed
  have "r < length g"
    if "r \<in> set [nat (sint (box_y b)) ..< nat (sint (box_y b)) + nat (sint (box_h b))]" for r
    using that y h rows by auto
  then show ?thesis
    by (simp add: py_slice2_def outer sub_grid_def inner)
qed

text \<open>
  C9. Every call of a cascade with the configuration of the eye detector, in any run of
  the pipeline, is the one call made by \<^verbatim>\<open>detect_eyes\<close> on the grayscale grid and the
  first box that the face detector returned for that grid; the cascade is the one loaded
  from the eye file. When that box lies within the grid, the region passed is exactly
  the rectangle of the box.
\<close>

theorem eye_detector_sees_first_face_only:
  assumes "DetectMultiScale c roi eye_params \<in> set (fst (analyze_behavior lib image_data))"
  shows "\<exists>image_bytes frame face_cascade faces gray.
           b64decode lib image_data = Inr image_bytes \<and>
           imdecode lib (np_frombuffer image_bytes) = Inr frame \<and>
           CascadeClassifier lib (face_file lib) = Inr face_cascade \<and>
           CascadeClassifier lib (eye_file lib) = Inr c \<and>
           cv2_cvtColor lib frame = Inr gray \<and>
           detectMultiScale lib face_cascade gray face_params = Inr faces \<and>
           faces \<noteq> [] \<and>
           fst (detect_eyes lib c gray (faces ! 0)) = [DetectMultiScale c roi eye_params] \<and>
           (in_grid gray (faces ! 0) \<longrightarrow> roi = sub_grid gray (faces ! 0))"
  using assms
  by (auto simp add: run_simps detect_face_cases detect_eyes_cases roi_is_sub_grid
      split: sum.splits if_splits)

theorem eye_detector_sees_first_face_only_witness:
  "DetectMultiScale ''/cv2/data/haarcascade_eye.xml'' [ [11, 12], [21, 22]] eye_params
     \<in> set (fst (analyze_behavior (test_library (Inr [test_face]) (Inr [])) ''QUJD'')) \<and>
   in_grid (map (map fst) test_frame) test_face \<and>
   sub_grid (map (map fst) test_frame) test_face = [ [11, 12], [21, 22]] \<and>
   (\<exists>image_bytes frame face_cascade faces gray.
      b64decode (test_library (Inr [test_face]) (Inr [])) ''QUJD'' = Inr image_bytes \<and>
      imdecode (test_library (Inr [test_face]) (Inr [])) (np_frombuffer image_bytes) = Inr frame \<and>
      CascadeClassifier (test_library (Inr [test_face]) (Inr []))
        (face_file (test_library (Inr [test_face]) (Inr []))) = Inr face_cascade \<and>
      CascadeClassifier (test_library (Inr [test_face]) (Inr []))
        (eye_file (test_library (Inr [test_face]) (Inr []))) = Inr ''/cv2/data/haarcascade_eye.xml'' \<and>
      cv2_cvtColor (test_library (Inr [test_face]) (Inr [])) frame = Inr gray \<and>
      detectMultiScale (test_library (Inr [test_face]) (Inr [])) face_cascade gray face_params
        = Inr faces \<and>
      faces \<noteq> [] \<and>
      fst (detect_eyes (test_library (Inr [test_face]) (Inr []))
             ''/cv2/data/haarcascade_eye.xml'' gray (faces ! 0))
        = [DetectMultiScale ''/cv2/data/haarcascade_eye.xml'' [ [11, 12], [21, 22]] eye_params] \<and>
      (in_grid gray (faces ! 0) \<longrightarrow> [ [11, 12], [21, 22]] = sub_grid gray (faces ! 0)))"
proof -
  have called: "DetectMultiScale ''/cv2/data/haarcascade_eye.xml'' [ [11, 12], [21, 22]] eye_params
      \<in> set (fst (analyze_behavior (test_library (Inr [test_face]) (Inr [])) ''QUJD''))"
    by (simp add: run_simps detect_face_cases detect_eyes_cases test_library_def
        np_frombuffer_def cv2_cvtColor_def test_frame_def test_face_def
        py_slice2_def py_slice_def slice_bound_def)
  have inside: "in_grid (map (map fst) test_frame) test_face"
    by (simp add: in_grid_def test_frame_def test_face_def)
  have region: "sub_grid (map (map fst) test_frame) test_face = [ [11, 12], [21, 22]]"
    by (simp add: sub_grid_def test_frame_def test_face_def upt_rec)
  from eye_detector_sees_first_face_only [OF called] called inside region show ?thesis
    by blast
qed

subsection \<open>Two runs\<close>

lemma snd_bind:
  "snd (bind m f) = (case snd m of Inl e \<Rightarrow> Inl e | Inr a \<Rightarrow> snd (f a))"
  by (cases m) (simp add: bind_pair split: sum.splits)

lemma detect_face_two_runs:
  assumes "cvtColor lib1 = cvtColor lib2"
    and "cvtColor_None lib1 = cvtColor_None lib2"
    and "\<And>g ps. detectMultiScale lib1 c1 g ps = detectMultiScale lib2 c2 g ps"
  shows "snd (detect_face lib1 c1 frame) = snd (detect_face lib2 c2 frame)"
proof -
  have "cv2_cvtColor lib1 frame = cv2_cvtColor lib2 frame"
    by (cases frame) (simp_all add: cv2_cvtColor_def assms(1,2))
  then show ?thesis
    by (cases "cv2_cvtColor lib2 frame") (simp_all add: detect_face_cases assms(3) split: sum.splits)
qed

lemma detect_eyes_two_runs:
  assumes "\<And>g ps. detectMultiScale lib1 c1 g ps = detectMultiScale lib2 c2 g ps"
  shows "snd (detect_eyes lib1 c1 gray face) = snd (detect_eyes lib2 c2 gray face)"
  using assms by (simp add: detect_eyes_cases)

lemma load_two_runs:
  assumes "rel_sum (=) same (CascadeClassifier lib1 path) (CascadeClassifier lib2 path)"
  obtains (raised) e where "CascadeClassifier lib1 path = Inl e"
      and "CascadeClassifier lib2 path = Inl e"
    | (loaded) c1 c2 where "CascadeClassifier lib1 path = Inr c1"
      and "CascadeClassifier lib2 path = Inr c2" and "same c1 c2"
  using assms
  by (cases "CascadeClassifier lib1 path"; cases "CascadeClassifier lib2 path") auto

lemma analyze_behavior_two_runs:
  fixes lib1 :: "'c library" and lib2 :: "'d library"
  assumes "b64decode lib1 = b64decode lib2"
    and "imdecode lib1 = imdecode lib2"
    and "haarcascades lib1 = haarcascades lib2"
    and "cvtColor lib1 = cvtColor lib2"
    and "cvtColor_None lib1 = cvtColor_None lib2"
    and load: "\<And>path. rel_sum (=) same (CascadeClassifier lib1 path) (CascadeClassifier lib2 path)"
    and detect: "\<And>c1 c2 g ps. same c1 c2 \<Longrightarrow>
                   detectMultiScale lib1 c1 g ps = detectMultiScale lib2 c2 g ps"
  shows "snd (analyze_behavior lib1 image_data) = snd (analyze_behavior lib2 image_data)"
proof (cases "b64decode lib2 image_data")
  case (Inl e)
  with assms(1) show ?thesis
    by (simp add: run_simps)
next
  case bytes: (Inr image_bytes)
  show ?thesis
  proof (cases "imdecode lib2 (np_frombuffer image_bytes)")
    case (Inl e)
    with bytes assms(1,2) show ?thesis
      by (simp add: run_simps)
  next
    case frame: (Inr frame)
    from load [of "face_file lib2"] show ?thesis
    proof (cases rule: load_two_runs)
      case (raised e)
      with bytes frame assms(1,2,3) show ?thesis
        by (simp add: run_simps)
    next
      case face: (loaded fc1 fc2)
      from load [of "eye_file lib2"] show ?thesis
      proof (cases rule: load_two_runs)
        case (raised e)
        with bytes frame face assms(1,2,3) show ?thesis
          by (simp add: run_simps)
      next
        case eye: (loaded ec1 ec2)
        have f: "snd (detect_face lib1 fc1 frame) = snd (detect_face lib2 fc2 frame)"
          using assms(4,5) detect [OF face(3)] by (rule detect_face_two_runs)
        have e: "snd (detect_eyes lib1 ec1 gray b) = snd (detect_eyes lib2 ec2 gray b)"
          for gray b
          using detect [OF eye(3)] by (rule detect_eyes_two_runs)
        from bytes frame face eye assms(1,2,3) f e show ?thesis
          by (cases "detect_face lib1 fc1 frame"; cases "detect_face lib2 fc2 frame")
             (auto simp add: run_simps snd_bind split: sum.splits)
      qed
    qed
  qed
qed

text \<open>
  C8. The pipeline is a function of the payload and of the answers of the library, and
  of nothing else. Two runs on the same payload end alike, with the same label or the
  same exception, and \<^verbatim>\<open>main\<close> prints the same line in both, whenever the library
  answers alike in both: the decoders and the grayscale conversion are the same, also
  in the exception that the conversion raises when it is given no frame, and
  the cascades loaded from the same file, which every run loads anew, detect the same
  boxes under the same configuration. A run with one library, repeated, is the case
  where the two libraries are one.
\<close>

theorem two_runs_same_label:
  fixes lib1 :: "'c library" and lib2 :: "'d library"
  assumes "b64decode lib1 = b64decode lib2"
    and "imdecode lib1 = imdecode lib2"
    and "haarcascades lib1 = haarcascades lib2"
    and "cvtColor lib1 = cvtColor lib2"
    and "cvtColor_None lib1 = cvtColor_None lib2"
    and "\<And>path. rel_sum (=) same (CascadeClassifier lib1 path) (CascadeClassifier lib2 path)"
    and "\<And>c1 c2 g ps. same c1 c2 \<Longrightarrow>
           detectMultiScale lib1 c1 g ps = detectMultiScale lib2 c2 g ps"
  shows "snd (analyze_behavior lib1 image_data) = snd (analyze_behavior lib2 image_data) \<and>
         printed (main lib1 argv) = printed (main lib2 argv)"
proof -
  have run: "snd (analyze_behavior lib1 d) = snd (analyze_behavior lib2 d)" for d
    using assms by (rule analyze_behavior_two_runs)
  have "printed (main lib1 argv) = printed (main lib2 argv)"
  proof (cases "length argv > 1 \<and> argv ! 1 \<noteq> ''''")
    case True
    with run [of "argv ! 1"] show ?thesis
      by (cases "analyze_behavior lib1 (argv ! 1)"; cases "analyze_behavior lib2 (argv ! 1)")
         (auto simp add: main_with_payload split: sum.splits)
  next
    case False
    then show ?thesis
      by (simp add: main_without_payload)
  qed
  with run show ?thesis
    by simp
qed

theorem two_runs_same_label_witness:
  "b64decode (test_library (Inr [test_face]) (Inr []))
     = b64decode (test_library_nat (Inr [test_face]) (Inr [])) \<and>
   imdecode (test_library (Inr [test_face]) (Inr []))
     = imdecode (test_library_nat (Inr [test_face]) (Inr [])) \<and>
   cvtColor (test_library (Inr [test_face]) (Inr []))
     = cvtColor (test_library_nat (Inr [test_face]) (Inr [])) \<and>
   cvtColor_None (test_library (Inr [test_face]) (Inr []))
     = cvtColor_None (test_library_nat (Inr [test_face]) (Inr [])) \<and>
   (\<forall>path. rel_sum (=) same_file
      (CascadeClassifier (test_library (Inr [test_face]) (Inr [])) path)
      (CascadeClassifier (test_library_nat (Inr [test_face]) (Inr [])) path)) \<and>
   snd (analyze_behavior (test_library (Inr [test_face]) (Inr [])) ''QUJD'') = Inr ''sleeping'' \<and>
   snd (analyze_behavior (test_library_nat (Inr [test_face]) (Inr [])) ''QUJD'') = Inr ''sleeping'' \<and>
   printed (main (test_library (Inr [test_face]) (Inr [])) [''behavior-analysis.py'', ''QUJD''])
     = printed (main (test_library_nat (Inr [test_face]) (Inr []))
                  [''behavior-analysis.py'', ''QUJD''])"
proof -
  let ?lib1 = "test_library (Inr [test_face]) (Inr [])"
  let ?lib2 = "test_library_nat (Inr [test_face]) (Inr [])"
  have h1: "b64decode ?lib1 = b64decode ?lib2" and h2: "imdecode ?lib1 = imdecode ?lib2"
    and h3: "haarcascades ?lib1 = haarcascades ?lib2" and h4: "cvtColor ?lib1 = cvtColor ?lib2"
    and h4': "cvtColor_None ?lib1 = cvtColor_None ?lib2"
    by (simp_all add: test_library_nat_def)
  have h5: "rel_sum (=) same_file (CascadeClassifier ?lib1 path) (CascadeClassifier ?lib2 path)"
    for path
    by (simp add: test_library_def test_library_nat_def same_file_def)
  have h6: "detectMultiScale ?lib1 c1 g ps = detectMultiScale ?lib2 c2 g ps"
    if "same_file c1 c2" for c1 c2 g ps
    using that by (simp add: test_library_def test_library_nat_def same_file_def)
  have first: "snd (analyze_behavior ?lib1 ''QUJD'') = Inr ''sleeping''"
    by (simp add: run_simps detect_face_cases detect_eyes_cases test_library_def
        np_frombuffer_def cv2_cvtColor_def)
  from two_runs_same_label [of ?lib1 ?lib2 same_file "''QUJD''"
         "[''behavior-analysis.py'', ''QUJD'']", OF h1 h2 h3 h4 h4' h5 h6]
       h1 h2 h4 h4' h5 first
  show ?thesis
    by simp
qed

subsection \<open>Payloads that do not decode\<close>




end
